theory Spec2Isabelle
  imports Complex_Main
begin

section \<open>Python values and exceptions\<close>

text \<open>
  The setters of the export classes receive arbitrary Python objects and decide by
  \<^verbatim>\<open>isinstance\<close> and \<^verbatim>\<open>is None\<close> what to do with them. The values that
  matter are enumerated; every other object is a \<open>PyObject\<close> tagged with its class name.
  Python floats are idealised as real numbers throughout.
\<close>

datatype pyval =
    PyNone
  | PyBool bool
  | PyInt int
  | PyFloat real
  | PyStr string
  | Species string
  | SurfaceSubdomain1D int
  | PyObject string

datatype pyclass = Class_str | Class_int | Class_bool | Class_Species | Class_SurfaceSubdomain1D

datatype error =
    TypeError | ValueError | AttributeError | ZeroDivisionError
  | FileNotFoundError | IsADirectoryError | PermissionError

text \<open>\<open>instance_of v c\<close>: \<open>v\<close> is an instance of the class \<open>c\<close>. As in Python, \<open>bool\<close>
  is a subclass of \<open>int\<close>, so a Boolean is an instance of both.\<close>

fun instance_of :: "pyval \<Rightarrow> pyclass \<Rightarrow> bool" where
  "instance_of (PyBool b) c = (c = Class_bool \<or> c = Class_int)"
| "instance_of (PyInt i) c = (c = Class_int)"
| "instance_of (PyStr s) c = (c = Class_str)"
| "instance_of (Species n) c = (c = Class_Species)"
| "instance_of (SurfaceSubdomain1D i) c = (c = Class_SurfaceSubdomain1D)"
| "instance_of PyNone c = False"
| "instance_of (PyFloat x) c = False"
| "instance_of (PyObject n) c = False"

text \<open>\<^verbatim>\<open>isinstance(value, (c1, c2, ...))\<close> with a tuple of classes.\<close>

definition isinstance :: "pyval \<Rightarrow> pyclass list \<Rightarrow> bool" where
  "isinstance v cs = list_ex (instance_of v) cs"

text \<open>\<^verbatim>\<open>s.endswith(suf)\<close>\<close>

definition endswith :: "string \<Rightarrow> string \<Rightarrow> bool" where
  "endswith s suf = (length suf \<le> length s \<and> drop (length s - length suf) s = suf)"

section \<open>SurfaceQuantity\<close>

text \<open>
  The instance attributes. \<open>filename\<close> holds what the setter lets through: \<open>None\<close> or
  a string. \<open>value_attr\<close> is the attribute \<^verbatim>\<open>value\<close>, which \<^verbatim>\<open>__init__\<close> does
  not create: it is absent (\<open>None\<close> here) until a \<^verbatim>\<open>compute()\<close> assigns it.
\<close>

record surface_quantity =
  field :: pyval
  surface_subdomain :: pyval
  filename :: "string option"
  value_attr :: "pyval option"

text \<open>The validating part of each property setter: the value to store, or the exception.\<close>

definition filename_setter :: "pyval \<Rightarrow> error + string option" where
  "filename_setter v =
     (if v = PyNone then Inr None
      else if \<not> isinstance v [Class_str] then Inl TypeError
      else (case v of
              PyStr s \<Rightarrow> if \<not> endswith s ''.csv'' then Inl ValueError else Inr (Some s)
            | _ \<Rightarrow> Inl TypeError))"

definition surface_subdomain_setter :: "pyval \<Rightarrow> error + pyval" where
  "surface_subdomain_setter v =
     (if \<not> isinstance v [Class_int, Class_SurfaceSubdomain1D] \<or> isinstance v [Class_bool]
      then Inl TypeError else Inr v)"

definition field_setter :: "pyval \<Rightarrow> error + pyval" where
  "field_setter v =
     (if \<not> isinstance v [Class_Species, Class_str] then Inl TypeError else Inr v)"

text \<open>Assignments \<^verbatim>\<open>q.filename = v\<close>, \<^verbatim>\<open>q.surface_subdomain = v\<close>, \<^verbatim>\<open>q.field = v\<close>
  on an existing instance: the instance is updated only when the setter does not raise.\<close>

definition assign_filename :: "pyval \<Rightarrow> surface_quantity \<Rightarrow> error + surface_quantity" where
  "assign_filename v q =
     (case filename_setter v of Inl e \<Rightarrow> Inl e | Inr x \<Rightarrow> Inr (q\<lparr>filename := x\<rparr>))"

definition assign_surface_subdomain :: "pyval \<Rightarrow> surface_quantity \<Rightarrow> error + surface_quantity" where
  "assign_surface_subdomain v q =
     (case surface_subdomain_setter v of
        Inl e \<Rightarrow> Inl e
      | Inr x \<Rightarrow> Inr (q\<lparr>surface_subdomain := x\<rparr>))"

definition assign_field :: "pyval \<Rightarrow> surface_quantity \<Rightarrow> error + surface_quantity" where
  "assign_field v q =
     (case field_setter v of Inl e \<Rightarrow> Inl e | Inr x \<Rightarrow> Inr (q\<lparr>field := x\<rparr>))"

text \<open>\<^verbatim>\<open>__init__\<close> runs the three setters in the order field, surface_subdomain,
  filename; the first exception aborts the construction.\<close>

definition SurfaceQuantity_init :: "pyval \<Rightarrow> pyval \<Rightarrow> pyval \<Rightarrow> error + surface_quantity" where
  "SurfaceQuantity_init fld sub fname =
     (case field_setter fld of
        Inl e \<Rightarrow> Inl e
      | Inr f \<Rightarrow>
          (case surface_subdomain_setter sub of
             Inl e \<Rightarrow> Inl e
           | Inr s \<Rightarrow>
               (case filename_setter fname of
                  Inl e \<Rightarrow> Inl e
                | Inr n \<Rightarrow>
                    Inr \<lparr>field = f, surface_subdomain = s, filename = n, value_attr = None\<rparr>)))"

definition write_to_file :: "surface_quantity \<Rightarrow> bool" where
  "write_to_file q = (if filename q = None then False else True)"

subsection \<open>The file system seen by \<^verbatim>\<open>write\<close>\<close>

text \<open>
  A file is the list of the rows written to it, a row the list of its cells. The trace
  \<open>events\<close> records every open, row write and close, in order. \<open>open_failure\<close> gives,
  for a path that cannot be opened for appending (a missing directory, a directory, a
  file without write permission), the exception that \<^verbatim>\<open>open\<close> raises for it.
\<close>

datatype open_mode = Append

datatype fs_event = Opened string open_mode | RowWritten string | Closed string

record filesystem =
  files :: "string \<rightharpoonup> pyval list list"
  events :: "fs_event list"
  open_failure :: "string \<rightharpoonup> error"

definition rows_of :: "filesystem \<Rightarrow> string \<Rightarrow> pyval list list" where
  "rows_of fs p = (case files fs p of None \<Rightarrow> [] | Some rs \<Rightarrow> rs)"

text \<open>\<^verbatim>\<open>open(p, mode="a")\<close>: raises when the path cannot be opened, touching nothing;
  otherwise a missing file is created empty, an existing one keeps its content, and
  writes go to the end.\<close>

definition fs_open_append :: "string \<Rightarrow> filesystem \<Rightarrow> error + filesystem" where
  "fs_open_append p fs =
     (case open_failure fs p of
        Some e \<Rightarrow> Inl e
      | None \<Rightarrow>
          Inr (fs\<lparr>files := (files fs)(p \<mapsto> rows_of fs p),
                  events := events fs @ [Opened p Append]\<rparr>))"

definition writerow :: "string \<Rightarrow> pyval list \<Rightarrow> filesystem \<Rightarrow> filesystem" where
  "writerow p row fs =
     fs\<lparr>files := (files fs)(p \<mapsto> rows_of fs p @ [row]), events := events fs @ [RowWritten p]\<rparr>"

definition fs_close :: "string \<Rightarrow> filesystem \<Rightarrow> filesystem" where
  "fs_close p fs = fs\<lparr>events := events fs @ [Closed p]\<rparr>"

text \<open>
  \<^verbatim>\<open>write(t)\<close>. \<^verbatim>\<open>open(None, ...)\<close> raises \<open>TypeError\<close> before any file is
  touched. With a file name the file is opened, and an exception of \<^verbatim>\<open>open\<close>
  leaves the method at once; reading a missing \<^verbatim>\<open>self.value\<close> raises
  \<open>AttributeError\<close> inside the \<^verbatim>\<open>with\<close> block, which still closes the file.
\<close>

definition SurfaceQuantity_write :: "pyval \<Rightarrow> surface_quantity \<Rightarrow> filesystem \<Rightarrow> (error + unit) \<times> filesystem" where
  "SurfaceQuantity_write t q fs =
     (case filename q of
        None \<Rightarrow> (Inl TypeError, fs)
      | Some p \<Rightarrow>
          (case fs_open_append p fs of
             Inl e \<Rightarrow> (Inl e, fs)
           | Inr fs1 \<Rightarrow>
               (case value_attr q of
                  None \<Rightarrow> (Inl AttributeError, fs_close p fs1)
                | Some v \<Rightarrow> (Inr (), fs_close p (writerow p [t, v] fs1)))))"

section \<open>The finite-element engine\<close>

text \<open>
  The engine is external to the repository. What the derived quantities use of it is
  modelled as numerical quadrature: a mesh carries integration nodes with coordinates,
  an expression has a value at every node, a measure restricted to a subdomain is the
  list of that subdomain's nodes with their weights, and assembling a scalar form sums
  weight times integrand over the measure.
\<close>

type_synonym node = nat

type_synonym expr = "node \<Rightarrow> real"

type_synonym measure = "(node \<times> real) list"

record mesh =
  coordinates :: "node \<Rightarrow> nat \<Rightarrow> real"

record fem_function =
  function_mesh :: mesh
  function_values :: expr

text \<open>\<open>Form e m\<close> is the form \<^verbatim>\<open>e * dx(id)\<close>, with \<open>m\<close> the measure \<^verbatim>\<open>dx(id)\<close>.\<close>

datatype form = Form expr measure

text \<open>\<^verbatim>\<open>SpatialCoordinate(mesh)[i]\<close>\<close>

definition SpatialCoordinate :: "mesh \<Rightarrow> nat \<Rightarrow> expr" where
  "SpatialCoordinate m i = (\<lambda>n. coordinates m n i)"

fun assemble :: "form \<Rightarrow> real" where
  "assemble (Form e m) = sum_list (map (\<lambda>(n, w). w * e n) m)"

section \<open>Volume quantities\<close>

text \<open>
  Modelled from the spec: the attributes of the base classes \<^verbatim>\<open>DerivedQuantity\<close> and
  \<^verbatim>\<open>VolumeQuantity\<close>, whose declarations are not among the source files. A derived
  quantity binds a field and the solution function of that field, a volume quantity
  additionally a volume subdomain identifier, and it integrates over that subdomain's
  measure. \<open>function_attr\<close> (the attribute \<^verbatim>\<open>function\<close>) and \<open>dx\<close> are bound by the
  simulation before \<^verbatim>\<open>compute()\<close> is called; the compute methods below read them.
\<close>

record derived_quantity =
  field :: pyval
  function_attr :: fem_function
  dx :: "int \<Rightarrow> measure"

record volume_quantity = derived_quantity +
  volume :: int

subsection \<open>TotalVolume\<close>

definition TotalVolume_compute :: "volume_quantity \<Rightarrow> real" where
  "TotalVolume_compute q =
     assemble (Form (function_values (function_attr q)) (dx q (volume q)))"

subsection \<open>AverageVolume\<close>

text \<open>Both operands of the division are Python floats: a zero divisor raises.\<close>

definition AverageVolume_compute :: "volume_quantity \<Rightarrow> error + real" where
  "AverageVolume_compute q =
     (let num = assemble (Form (function_values (function_attr q)) (dx q (volume q)));
          den = assemble (Form (\<lambda>n. 1) (dx q (volume q)))
      in if den = 0 then Inl ZeroDivisionError else Inr (num / den))"

subsection \<open>AverageVolumeCylindrical\<close>

record average_volume_cylindrical = volume_quantity +
  r :: "expr option"
  z :: expr
  azimuth_range :: "real \<times> real"

definition cylindrical_azimuth_range_setter :: "real \<times> real \<Rightarrow> error + real \<times> real" where
  "cylindrical_azimuth_range_setter v =
     (if fst v < 0 \<or> snd v > 2 * pi then Inl ValueError else Inr v)"

definition assign_cylindrical_azimuth_range ::
  "real \<times> real \<Rightarrow> average_volume_cylindrical \<Rightarrow> error + average_volume_cylindrical" where
  "assign_cylindrical_azimuth_range v q =
     (case cylindrical_azimuth_range_setter v of
        Inl e \<Rightarrow> Inl e
      | Inr x \<Rightarrow> Inr (q\<lparr>azimuth_range := x\<rparr>))"

text \<open>\<^verbatim>\<open>__init__\<close>: \<open>base\<close> is the instance as the base initialiser leaves it.\<close>

definition AverageVolumeCylindrical_init ::
  "volume_quantity \<Rightarrow> expr \<Rightarrow> real \<times> real \<Rightarrow> error + average_volume_cylindrical" where
  "AverageVolumeCylindrical_init base z0 azimuth_range0 =
     (case cylindrical_azimuth_range_setter azimuth_range0 of
        Inl e \<Rightarrow> Inl e
      | Inr x \<Rightarrow>
          Inr \<lparr>field = field base, function_attr = function_attr base, dx = dx base,
               volume = volume base, r = None, z = z0, azimuth_range = x\<rparr>)"

text \<open>
  \<^verbatim>\<open>compute()\<close> returns its result together with the instance, whose \<open>r\<close> it may
  have assigned. The operands of the division are Python floats.
\<close>

definition AverageVolumeCylindrical_compute ::
  "average_volume_cylindrical \<Rightarrow> (error + real) \<times> average_volume_cylindrical" where
  "AverageVolumeCylindrical_compute q =
     (let r1 = (case r q of
                  None \<Rightarrow> SpatialCoordinate (function_mesh (function_attr q)) 0
                | Some x \<Rightarrow> x);
          q1 = q\<lparr>r := Some r1\<rparr>;
          u = function_values (function_attr q1);
          span = snd (azimuth_range q1) - fst (azimuth_range q1);
          values = assemble (Form (\<lambda>n. u n * r1 n * z q1 n) (dx q1 (volume q1))) * span;
          vol = assemble (Form (\<lambda>n. 1 * r1 n * z q1 n) (dx q1 (volume q1))) * span
      in if vol = 0 then (Inl ZeroDivisionError, q1)
         else (let avg_vol = values / vol in (Inr (avg_vol * span), q1)))"

subsection \<open>AverageVolumeSpherical\<close>

record average_volume_spherical = volume_quantity +
  r :: "expr option"
  azimuth_range :: "real \<times> real"
  polar_range :: "real \<times> real"

definition polar_range_setter :: "real \<times> real \<Rightarrow> error + real \<times> real" where
  "polar_range_setter v =
     (if fst v < - pi \<or> snd v > pi then Inl ValueError else Inr v)"

definition spherical_azimuth_range_setter :: "real \<times> real \<Rightarrow> error + real \<times> real" where
  "spherical_azimuth_range_setter v =
     (if fst v < 0 \<or> snd v > pi then Inl ValueError else Inr v)"

definition assign_polar_range ::
  "real \<times> real \<Rightarrow> average_volume_spherical \<Rightarrow> error + average_volume_spherical" where
  "assign_polar_range v q =
     (case polar_range_setter v of
        Inl e \<Rightarrow> Inl e
      | Inr x \<Rightarrow> Inr (q\<lparr>polar_range := x\<rparr>))"

definition assign_spherical_azimuth_range ::
  "real \<times> real \<Rightarrow> average_volume_spherical \<Rightarrow> error + average_volume_spherical" where
  "assign_spherical_azimuth_range v q =
     (case spherical_azimuth_range_setter v of
        Inl e \<Rightarrow> Inl e
      | Inr x \<Rightarrow> Inr (q\<lparr>average_volume_spherical.azimuth_range := x\<rparr>))"

definition AverageVolumeSpherical_init ::
  "volume_quantity \<Rightarrow> real \<times> real \<Rightarrow> real \<times> real \<Rightarrow> error + average_volume_spherical" where
  "AverageVolumeSpherical_init base azimuth_range0 polar_range0 =
     (case spherical_azimuth_range_setter azimuth_range0 of
        Inl e \<Rightarrow> Inl e
      | Inr a \<Rightarrow>
          (case polar_range_setter polar_range0 of
             Inl e \<Rightarrow> Inl e
           | Inr p \<Rightarrow>
               Inr \<lparr>field = field base, function_attr = function_attr base, dx = dx base,
                    volume = volume base, r = None, azimuth_range = a, polar_range = p\<rparr>))"

text \<open>
  The cosine factor is a NumPy scalar, so the operands of the division are NumPy
  floats: a zero divisor raises nothing and the result is an infinity or a NaN,
  \<open>NonFinite\<close> here.
\<close>

datatype float64 = Finite real | NonFinite

definition AverageVolumeSpherical_compute ::
  "average_volume_spherical \<Rightarrow> float64 \<times> average_volume_spherical" where
  "AverageVolumeSpherical_compute q =
     (let r1 = (case average_volume_spherical.r q of
                  None \<Rightarrow> SpatialCoordinate (function_mesh (function_attr q)) 0
                | Some x \<Rightarrow> x);
          q1 = q\<lparr>average_volume_spherical.r := Some r1\<rparr>;
          u = function_values (function_attr q1);
          azimuth = average_volume_spherical.azimuth_range q1;
          values = assemble (Form (\<lambda>n. u n * r1 n ^ 2) (dx q1 (volume q1)))
                   * (snd (polar_range q1) - fst (polar_range q1))
                   * (- cos (snd azimuth) + cos (fst azimuth));
          vol = assemble (Form (\<lambda>n. 1 * r1 n ^ 2) (dx q1 (volume q1)))
                * (snd (polar_range q1) - fst (polar_range q1))
                * (- cos (snd azimuth) + cos (fst azimuth))
      in if vol = 0 then (NonFinite, q1) else (Finite (values / vol), q1))"

section \<open>Example instances\<close>

definition example_quantity :: surface_quantity where
  "example_quantity =
     \<lparr>surface_quantity.field = Species ''H'', surface_subdomain = PyInt 1, filename = None,
      value_attr = None\<rparr>"

definition example_exporting_quantity :: surface_quantity where
  "example_exporting_quantity =
     \<lparr>surface_quantity.field = Species ''H'', surface_subdomain = PyInt 1,
      filename = Some ''out.csv'', value_attr = Some (PyFloat 5)\<rparr>"

definition example_constructed_quantity :: surface_quantity where
  "example_constructed_quantity =
     \<lparr>surface_quantity.field = Species ''H'', surface_subdomain = PyInt 1,
      filename = Some ''out.csv'', value_attr = None\<rparr>"

definition example_misdirected_quantity :: surface_quantity where
  "example_misdirected_quantity =
     \<lparr>surface_quantity.field = Species ''H'', surface_subdomain = PyInt 1,
      filename = Some ''missing_dir/out.csv'', value_attr = Some (PyFloat 5)\<rparr>"

definition example_filesystem :: filesystem where
  "example_filesystem =
     \<lparr>files = [''out.csv'' \<mapsto> [[PyFloat 0, PyFloat 3]], ''other.csv'' \<mapsto> [[PyFloat 0, PyFloat 7]]],
      events = [],
      open_failure = [''missing_dir/out.csv'' \<mapsto> FileNotFoundError]\<rparr>"

definition example_mesh :: mesh where
  "example_mesh = \<lparr>coordinates = (\<lambda>n i. if i = 0 then real n + 1 else 0)\<rparr>"

definition example_base :: "real \<Rightarrow> volume_quantity" where
  "example_base c =
     \<lparr>field = PyStr ''solute'',
      function_attr = \<lparr>function_mesh = example_mesh, function_values = (\<lambda>n. c)\<rparr>,
      dx = (\<lambda>i. if i = 1 then [(0, 1 / 2), (1, 1 / 2)] else []),
      volume = 1\<rparr>"

definition example_cylindrical :: average_volume_cylindrical where
  "example_cylindrical =
     \<lparr>field = PyStr ''solute'',
      function_attr = \<lparr>function_mesh = example_mesh, function_values = (\<lambda>n. 3)\<rparr>,
      dx = (\<lambda>i. if i = 1 then [(0, 1 / 2), (1, 1 / 2)] else []),
      volume = 1, average_volume_cylindrical.r = None, z = (\<lambda>n. 1),
      average_volume_cylindrical.azimuth_range = (0, 2 * pi)\<rparr>"

definition example_varying_function :: fem_function where
  "example_varying_function =
     \<lparr>function_mesh = example_mesh, function_values = (\<lambda>n. if n = 0 then 1 else 5)\<rparr>"

definition example_spherical :: average_volume_spherical where
  "example_spherical =
     \<lparr>field = PyStr ''solute'',
      function_attr = \<lparr>function_mesh = example_mesh, function_values = (\<lambda>n. 3)\<rparr>,
      dx = (\<lambda>i. if i = 1 then [(0, 1 / 2), (1, 1 / 2)] else []),
      volume = 1, r = None, azimuth_range = (0, pi), polar_range = (- pi, pi)\<rparr>"

definition example_varying_base :: volume_quantity where
  "example_varying_base = (example_base 0)\<lparr>function_attr := example_varying_function\<rparr>"

definition example_varying_spherical :: average_volume_spherical where
  "example_varying_spherical = example_spherical\<lparr>function_attr := example_varying_function\<rparr>"

definition example_degenerate_spherical :: average_volume_spherical where
  "example_degenerate_spherical =
     \<lparr>field = PyStr ''solute'',
      function_attr = \<lparr>function_mesh = example_mesh, function_values = (\<lambda>n. 3)\<rparr>,
      dx = (\<lambda>i. if i = 1 then [(0, 1 / 2), (1, 1 / 2)] else []),
      volume = 1, r = None, azimuth_range = (0, pi), polar_range = (1, 1)\<rparr>"

section \<open>Properties of SurfaceQuantity\<close>

lemma endswith_iff: "endswith s suf \<longleftrightarrow> (\<exists>pre. s = pre @ suf)"
proof
  assume "endswith s suf"
  then have "s = take (length s - length suf) s @ suf"
    by (metis append_take_drop_id endswith_def)
  then show "\<exists>pre. s = pre @ suf" ..
next
  assume "\<exists>pre. s = pre @ suf"
  then show "endswith s suf"
    by (auto simp: endswith_def)
qed

lemma isinstance_str_iff: "isinstance v [Class_str] \<longleftrightarrow> (\<exists>s. v = PyStr s)"
  by (cases v) (simp_all add: isinstance_def)

lemma filename_setter_None: "filename_setter PyNone = Inr None"
  by (simp add: filename_setter_def)

lemma filename_setter_str:
  "filename_setter (PyStr s) = (if endswith s ''.csv'' then Inr (Some s) else Inl ValueError)"
  by (simp add: filename_setter_def isinstance_def)

lemma filename_setter_other:
  "v \<noteq> PyNone \<Longrightarrow> \<not> isinstance v [Class_str] \<Longrightarrow> filename_setter v = Inl TypeError"
  by (simp add: filename_setter_def)

text \<open>
  C4. Assigning \<open>filename\<close> accepts \<open>None\<close> and every string ending in \<open>.csv\<close> and
  stores it; every value that is neither \<open>None\<close> nor a string raises \<open>TypeError\<close>;
  every string that does not end in \<open>.csv\<close> (such as \<open>out.txt\<close>) raises \<open>ValueError\<close>.
  The exception comes from the assignment itself, and from the constructor, which runs
  the same setter.
\<close>

theorem filename_assignment:
  "assign_filename PyNone q = Inr (q\<lparr>filename := None\<rparr>)
   \<and> (\<forall>pre. assign_filename (PyStr (pre @ ''.csv'')) q = Inr (q\<lparr>filename := Some (pre @ ''.csv'')\<rparr>))
   \<and> (\<forall>v. v \<noteq> PyNone \<and> (\<forall>s. v \<noteq> PyStr s) \<longrightarrow> assign_filename v q = Inl TypeError)
   \<and> (\<forall>s. (\<forall>pre. s \<noteq> pre @ ''.csv'') \<longrightarrow> assign_filename (PyStr s) q = Inl ValueError)
   \<and> assign_filename (PyStr ''out.txt'') q = Inl ValueError
   \<and> SurfaceQuantity_init (Species ''H'') (PyInt 1) (PyStr ''out.txt'') = Inl ValueError
   \<and> SurfaceQuantity_init (Species ''H'') (PyInt 1) (PyInt 3) = Inl TypeError"
proof (intro conjI allI impI)
  show "assign_filename PyNone q = Inr (q\<lparr>filename := None\<rparr>)"
    by (simp add: assign_filename_def filename_setter_None)
next
  fix pre :: string
  have "endswith (pre @ ''.csv'') ''.csv''"
    unfolding endswith_iff by blast
  then show "assign_filename (PyStr (pre @ ''.csv'')) q = Inr (q\<lparr>filename := Some (pre @ ''.csv'')\<rparr>)"
    by (simp add: assign_filename_def filename_setter_str)
next
  fix v assume "v \<noteq> PyNone \<and> (\<forall>s. v \<noteq> PyStr s)"
  then have "v \<noteq> PyNone" and "\<not> isinstance v [Class_str]"
    by (simp_all add: isinstance_str_iff)
  then show "assign_filename v q = Inl TypeError"
    by (simp add: assign_filename_def filename_setter_other)
next
  fix s :: string assume "\<forall>pre. s \<noteq> pre @ ''.csv''"
  then have "\<not> endswith s ''.csv''"
    unfolding endswith_iff by blast
  then show "assign_filename (PyStr s) q = Inl ValueError"
    by (simp add: assign_filename_def filename_setter_str)
next
  show "assign_filename (PyStr ''out.txt'') q = Inl ValueError"
    by (simp add: assign_filename_def filename_setter_str endswith_def)
next
  show "SurfaceQuantity_init (Species ''H'') (PyInt 1) (PyStr ''out.txt'') = Inl ValueError"
    by (simp add: SurfaceQuantity_init_def field_setter_def surface_subdomain_setter_def
        filename_setter_str endswith_def isinstance_def)
next
  show "SurfaceQuantity_init (Species ''H'') (PyInt 1) (PyInt 3) = Inl TypeError"
    by (simp add: SurfaceQuantity_init_def field_setter_def surface_subdomain_setter_def
        filename_setter_def isinstance_def)
qed

theorem filename_assignment_witness:
  "assign_filename PyNone example_quantity = Inr (example_quantity\<lparr>filename := None\<rparr>)
   \<and> assign_filename (PyStr ''out.csv'') example_quantity
       = Inr (example_quantity\<lparr>filename := Some ''out.csv''\<rparr>)
   \<and> assign_filename (PyFloat 2) example_quantity = Inl TypeError
   \<and> assign_filename (PyStr ''out.csv.bak'') example_quantity = Inl ValueError"
proof -
  note T = filename_assignment [of example_quantity]
  have a: "assign_filename PyNone example_quantity = Inr (example_quantity\<lparr>filename := None\<rparr>)"
    using T by blast
  have "assign_filename (PyStr (''out'' @ ''.csv'')) example_quantity
        = Inr (example_quantity\<lparr>filename := Some (''out'' @ ''.csv'')\<rparr>)"
    using T by blast
  then have b: "assign_filename (PyStr ''out.csv'') example_quantity
       = Inr (example_quantity\<lparr>filename := Some ''out.csv''\<rparr>)"
    by simp
  have "PyFloat 2 \<noteq> PyNone \<and> (\<forall>s. PyFloat 2 \<noteq> PyStr s)"
    by simp
  then have c: "assign_filename (PyFloat 2) example_quantity = Inl TypeError"
    using T by blast
  have "\<not> endswith ''out.csv.bak'' ''.csv''"
    by (simp add: endswith_def)
  then have "\<forall>pre. ''out.csv.bak'' \<noteq> pre @ ''.csv''"
    unfolding endswith_iff by blast
  then have d: "assign_filename (PyStr ''out.csv.bak'') example_quantity = Inl ValueError"
    using T by blast
  from a b c d show ?thesis by blast
qed

lemma isinstance_int_or_subdomain_iff:
  "isinstance v [Class_int, Class_SurfaceSubdomain1D]
     \<longleftrightarrow> (\<exists>i. v = PyInt i) \<or> (\<exists>b. v = PyBool b) \<or> (\<exists>h. v = SurfaceSubdomain1D h)"
  by (cases v) (simp_all add: isinstance_def)

lemma isinstance_bool_iff: "isinstance v [Class_bool] \<longleftrightarrow> (\<exists>b. v = PyBool b)"
  by (cases v) (simp_all add: isinstance_def)

text \<open>
  C5. Assigning \<open>surface_subdomain\<close> raises \<open>TypeError\<close> for every Boolean, although
  a Boolean passes the \<open>int\<close> instance test, and for every value that is neither an
  integer nor a surface-subdomain handle; every integer that is not a Boolean and every
  surface-subdomain handle is accepted and stored unchanged.
\<close>

theorem surface_subdomain_assignment:
  "(\<forall>b. assign_surface_subdomain (PyBool b) q = Inl TypeError)
   \<and> (\<forall>v. (\<forall>i. v \<noteq> PyInt i) \<and> (\<forall>b. v \<noteq> PyBool b) \<and> (\<forall>h. v \<noteq> SurfaceSubdomain1D h)
          \<longrightarrow> assign_surface_subdomain v q = Inl TypeError)
   \<and> (\<forall>i. assign_surface_subdomain (PyInt i) q = Inr (q\<lparr>surface_subdomain := PyInt i\<rparr>))
   \<and> (\<forall>h. assign_surface_subdomain (SurfaceSubdomain1D h) q
             = Inr (q\<lparr>surface_subdomain := SurfaceSubdomain1D h\<rparr>))
   \<and> isinstance (PyBool True) [Class_int]
   \<and> SurfaceQuantity_init (Species ''H'') (PyBool True) PyNone = Inl TypeError"
proof (intro conjI allI impI)
  fix b show "assign_surface_subdomain (PyBool b) q = Inl TypeError"
    by (simp add: assign_surface_subdomain_def surface_subdomain_setter_def isinstance_bool_iff)
next
  fix v
  assume "(\<forall>i. v \<noteq> PyInt i) \<and> (\<forall>b. v \<noteq> PyBool b) \<and> (\<forall>h. v \<noteq> SurfaceSubdomain1D h)"
  then have "\<not> isinstance v [Class_int, Class_SurfaceSubdomain1D]"
    by (simp add: isinstance_int_or_subdomain_iff)
  then show "assign_surface_subdomain v q = Inl TypeError"
    by (simp add: assign_surface_subdomain_def surface_subdomain_setter_def)
next
  fix i show "assign_surface_subdomain (PyInt i) q = Inr (q\<lparr>surface_subdomain := PyInt i\<rparr>)"
    by (simp add: assign_surface_subdomain_def surface_subdomain_setter_def isinstance_def)
next
  fix h show "assign_surface_subdomain (SurfaceSubdomain1D h) q
             = Inr (q\<lparr>surface_subdomain := SurfaceSubdomain1D h\<rparr>)"
    by (simp add: assign_surface_subdomain_def surface_subdomain_setter_def isinstance_def)
next
  show "isinstance (PyBool True) [Class_int]"
    by (simp add: isinstance_def)
next
  show "SurfaceQuantity_init (Species ''H'') (PyBool True) PyNone = Inl TypeError"
    by (simp add: SurfaceQuantity_init_def field_setter_def surface_subdomain_setter_def
        isinstance_def)
qed

theorem surface_subdomain_assignment_witness:
  "assign_surface_subdomain (PyBool True) example_quantity = Inl TypeError
   \<and> assign_surface_subdomain (PyBool False) example_quantity = Inl TypeError
   \<and> assign_surface_subdomain (PyStr ''left'') example_quantity = Inl TypeError
   \<and> assign_surface_subdomain (PyInt 2) example_quantity
       = Inr (example_quantity\<lparr>surface_subdomain := PyInt 2\<rparr>)
   \<and> assign_surface_subdomain (SurfaceSubdomain1D 7) example_quantity
       = Inr (example_quantity\<lparr>surface_subdomain := SurfaceSubdomain1D 7\<rparr>)"
proof -
  note T = surface_subdomain_assignment [of example_quantity]
  have "(\<forall>i. PyStr ''left'' \<noteq> PyInt i) \<and> (\<forall>b. PyStr ''left'' \<noteq> PyBool b)
        \<and> (\<forall>h. PyStr ''left'' \<noteq> SurfaceSubdomain1D h)"
    by simp
  then have "assign_surface_subdomain (PyStr ''left'') example_quantity = Inl TypeError"
    using T by blast
  then show ?thesis using T by blast
qed

lemma rows_of_fs_close: "rows_of (fs_close p fs) p' = rows_of fs p'"
  by (simp add: rows_of_def fs_close_def)

lemma rows_of_writerow:
  "rows_of (writerow p row fs) p' = (if p' = p then rows_of fs p @ [row] else rows_of fs p')"
  by (simp add: rows_of_def writerow_def)

text \<open>
  C6, amended. For every time \<open>t\<close> and every quantity with a configured file name:
  when the file can be opened for appending and the quantity's value has been assigned,
  \<^verbatim>\<open>write(t)\<close> succeeds, opens the file in append mode, appends exactly one row with
  the two cells \<open>t\<close> and the value, and closes the file; the rows written before are all
  still there, in front of the new one, every other file is untouched, and the call adds
  one open, one row write and one close to the trace. When the value has not been
  assigned, the file is opened and closed, no row is appended and \<open>AttributeError\<close> is
  raised. When the file cannot be opened, the exception of \<^verbatim>\<open>open\<close> is raised and the
  file system is left as it was.
\<close>

theorem write_appends_one_row:
  assumes "filename q = Some p"
  shows "(open_failure fs p = None \<and> value_attr q = Some v \<longrightarrow>
            fst (SurfaceQuantity_write t q fs) = Inr ()
          \<and> rows_of (snd (SurfaceQuantity_write t q fs)) p = rows_of fs p @ [[t, v]]
          \<and> length [t, v] = 2
          \<and> (\<forall>p'. p' \<noteq> p \<longrightarrow> files (snd (SurfaceQuantity_write t q fs)) p' = files fs p')
          \<and> events (snd (SurfaceQuantity_write t q fs))
              = events fs @ [Opened p Append, RowWritten p, Closed p])
     \<and> (open_failure fs p = None \<and> value_attr q = None \<longrightarrow>
            fst (SurfaceQuantity_write t q fs) = Inl AttributeError
          \<and> rows_of (snd (SurfaceQuantity_write t q fs)) p = rows_of fs p
          \<and> (\<forall>p'. p' \<noteq> p \<longrightarrow> files (snd (SurfaceQuantity_write t q fs)) p' = files fs p')
          \<and> events (snd (SurfaceQuantity_write t q fs)) = events fs @ [Opened p Append, Closed p])
     \<and> (open_failure fs p = Some e \<longrightarrow> SurfaceQuantity_write t q fs = (Inl e, fs))"
proof (intro conjI impI)
  assume h: "open_failure fs p = None \<and> value_attr q = Some v"
  let ?fs1 = "fs\<lparr>files := (files fs)(p \<mapsto> rows_of fs p),
                  events := events fs @ [Opened p Append]\<rparr>"
  have o: "fs_open_append p fs = Inr ?fs1"
    using h by (simp add: fs_open_append_def)
  have w: "SurfaceQuantity_write t q fs = (Inr (), fs_close p (writerow p [t, v] ?fs1))"
    using assms h by (simp add: SurfaceQuantity_write_def o)
  show "fst (SurfaceQuantity_write t q fs) = Inr ()"
    by (simp add: w)
  show "rows_of (snd (SurfaceQuantity_write t q fs)) p = rows_of fs p @ [[t, v]]"
    by (simp add: w rows_of_fs_close rows_of_writerow) (simp add: rows_of_def)
  show "length [t, v] = 2"
    by simp
  show "\<forall>p'. p' \<noteq> p \<longrightarrow> files (snd (SurfaceQuantity_write t q fs)) p' = files fs p'"
    by (simp add: w fs_close_def writerow_def)
  show "events (snd (SurfaceQuantity_write t q fs))
          = events fs @ [Opened p Append, RowWritten p, Closed p]"
    by (simp add: w fs_close_def writerow_def)
next
  assume h: "open_failure fs p = None \<and> value_attr q = None"
  let ?fs1 = "fs\<lparr>files := (files fs)(p \<mapsto> rows_of fs p),
                  events := events fs @ [Opened p Append]\<rparr>"
  have o: "fs_open_append p fs = Inr ?fs1"
    using h by (simp add: fs_open_append_def)
  have w: "SurfaceQuantity_write t q fs = (Inl AttributeError, fs_close p ?fs1)"
    using assms h by (simp add: SurfaceQuantity_write_def o)
  show "fst (SurfaceQuantity_write t q fs) = Inl AttributeError"
    by (simp add: w)
  show "rows_of (snd (SurfaceQuantity_write t q fs)) p = rows_of fs p"
    by (simp add: w rows_of_fs_close) (simp add: rows_of_def)
  show "\<forall>p'. p' \<noteq> p \<longrightarrow> files (snd (SurfaceQuantity_write t q fs)) p' = files fs p'"
    by (simp add: w fs_close_def)
  show "events (snd (SurfaceQuantity_write t q fs)) = events fs @ [Opened p Append, Closed p]"
    by (simp add: w fs_close_def)
next
  assume "open_failure fs p = Some e"
  then show "SurfaceQuantity_write t q fs = (Inl e, fs)"
    using assms by (simp add: SurfaceQuantity_write_def fs_open_append_def)
qed

theorem write_appends_one_row_witness:
  "fst (SurfaceQuantity_write (PyFloat 1) example_exporting_quantity example_filesystem) = Inr ()
   \<and> rows_of (snd (SurfaceQuantity_write (PyFloat 1) example_exporting_quantity example_filesystem))
        ''out.csv'' = [[PyFloat 0, PyFloat 3], [PyFloat 1, PyFloat 5]]
   \<and> files (snd (SurfaceQuantity_write (PyFloat 1) example_exporting_quantity example_filesystem))
        ''other.csv'' = Some [[PyFloat 0, PyFloat 7]]
   \<and> events (snd (SurfaceQuantity_write (PyFloat 1) example_exporting_quantity example_filesystem))
       = [Opened ''out.csv'' Append, RowWritten ''out.csv'', Closed ''out.csv'']
   \<and> events (snd (SurfaceQuantity_write (PyFloat 1) example_constructed_quantity example_filesystem))
       = [Opened ''out.csv'' Append, Closed ''out.csv'']
   \<and> SurfaceQuantity_write (PyFloat 1) example_misdirected_quantity example_filesystem
       = (Inl FileNotFoundError, example_filesystem)"
proof -
  have f: "filename example_exporting_quantity = Some ''out.csv''"
    and v: "open_failure example_filesystem ''out.csv'' = None
            \<and> value_attr example_exporting_quantity = Some (PyFloat 5)"
    by (simp_all add: example_exporting_quantity_def example_filesystem_def)
  have f2: "filename example_constructed_quantity = Some ''out.csv''"
    and v2: "open_failure example_filesystem ''out.csv'' = None
             \<and> value_attr example_constructed_quantity = None"
    by (simp_all add: example_constructed_quantity_def example_filesystem_def)
  have f3: "filename example_misdirected_quantity = Some ''missing_dir/out.csv''"
    and v3: "open_failure example_filesystem ''missing_dir/out.csv'' = Some FileNotFoundError"
    by (simp_all add: example_misdirected_quantity_def example_filesystem_def)
  have o: "''other.csv'' \<noteq> ''out.csv''"
    by simp
  have r: "rows_of example_filesystem ''out.csv'' = [[PyFloat 0, PyFloat 3]]"
    "files example_filesystem ''other.csv'' = Some [[PyFloat 0, PyFloat 7]]"
    "events example_filesystem = []"
    by (simp_all add: example_filesystem_def rows_of_def)
  note A = write_appends_one_row
      [OF f, of example_filesystem "PyFloat 5" "PyFloat 1" TypeError,
       THEN conjunct1, THEN mp, OF v]
  note B = write_appends_one_row
      [OF f2, of example_filesystem "PyFloat 5" "PyFloat 1" TypeError,
       THEN conjunct2, THEN conjunct1, THEN mp, OF v2]
  note C = write_appends_one_row
      [OF f3, of example_filesystem "PyFloat 5" "PyFloat 1" FileNotFoundError,
       THEN conjunct2, THEN conjunct2, THEN mp, OF v3]
  from A have a1:
    "fst (SurfaceQuantity_write (PyFloat 1) example_exporting_quantity example_filesystem) = Inr ()"
    and a2: "rows_of (snd (SurfaceQuantity_write (PyFloat 1) example_exporting_quantity
        example_filesystem)) ''out.csv'' = rows_of example_filesystem ''out.csv'' @ [[PyFloat 1, PyFloat 5]]"
    and a3: "\<forall>p'. p' \<noteq> ''out.csv'' \<longrightarrow>
        files (snd (SurfaceQuantity_write (PyFloat 1) example_exporting_quantity example_filesystem)) p'
        = files example_filesystem p'"
    and a4: "events (snd (SurfaceQuantity_write (PyFloat 1) example_exporting_quantity
        example_filesystem))
       = events example_filesystem
         @ [Opened ''out.csv'' Append, RowWritten ''out.csv'', Closed ''out.csv'']"
    by (rule conjunct1, rule conjunct2 [THEN conjunct1],
        rule conjunct2 [THEN conjunct2, THEN conjunct2, THEN conjunct1],
        rule conjunct2 [THEN conjunct2, THEN conjunct2, THEN conjunct2])
  note a3' = a3 [rule_format, OF o]
  from B have b4:
    "events (snd (SurfaceQuantity_write (PyFloat 1) example_constructed_quantity example_filesystem))
       = events example_filesystem @ [Opened ''out.csv'' Append, Closed ''out.csv'']"
    by (rule conjunct2 [THEN conjunct2, THEN conjunct2])
  show ?thesis
    unfolding a1 a2 a3' a4 b4 C r by simp
qed

text \<open>
  A quantity as the constructor leaves it has a file name and no value: \<^verbatim>\<open>write\<close>
  then raises and appends nothing, although the file can be opened. A quantity whose
  accepted file name lies in a missing directory raises from \<^verbatim>\<open>open\<close>.
\<close>

theorem write_of_constructed_quantity_appends_nothing:
  "SurfaceQuantity_init (Species ''H'') (PyInt 1) (PyStr ''out.csv'')
     = Inr example_constructed_quantity
   \<and> open_failure example_filesystem ''out.csv'' = None
   \<and> fst (SurfaceQuantity_write (PyFloat 1) example_constructed_quantity example_filesystem)
       = Inl AttributeError
   \<and> rows_of (snd (SurfaceQuantity_write (PyFloat 1) example_constructed_quantity
        example_filesystem)) ''out.csv''
       = rows_of example_filesystem ''out.csv''
   \<and> assign_filename (PyStr ''missing_dir/out.csv'') example_exporting_quantity
       = Inr example_misdirected_quantity
   \<and> SurfaceQuantity_write (PyFloat 1) example_misdirected_quantity example_filesystem
       = (Inl FileNotFoundError, example_filesystem)"
proof (intro conjI)
  show "SurfaceQuantity_init (Species ''H'') (PyInt 1) (PyStr ''out.csv'')
     = Inr example_constructed_quantity"
    by (simp add: SurfaceQuantity_init_def field_setter_def surface_subdomain_setter_def
        filename_setter_str endswith_def isinstance_def example_constructed_quantity_def)
  show "open_failure example_filesystem ''out.csv'' = None"
    by (simp add: example_filesystem_def)
  show "fst (SurfaceQuantity_write (PyFloat 1) example_constructed_quantity example_filesystem)
       = Inl AttributeError"
    by (simp add: SurfaceQuantity_write_def fs_open_append_def example_constructed_quantity_def
        example_filesystem_def)
  show "rows_of (snd (SurfaceQuantity_write (PyFloat 1) example_constructed_quantity
        example_filesystem)) ''out.csv''
       = rows_of example_filesystem ''out.csv''"
    by (simp add: SurfaceQuantity_write_def fs_open_append_def example_constructed_quantity_def
        example_filesystem_def rows_of_def fs_close_def)
  show "assign_filename (PyStr ''missing_dir/out.csv'') example_exporting_quantity
       = Inr example_misdirected_quantity"
    by (simp add: assign_filename_def filename_setter_str endswith_def
        example_exporting_quantity_def example_misdirected_quantity_def)
  show "SurfaceQuantity_write (PyFloat 1) example_misdirected_quantity example_filesystem
       = (Inl FileNotFoundError, example_filesystem)"
    by (simp add: SurfaceQuantity_write_def fs_open_append_def example_misdirected_quantity_def
        example_filesystem_def)
qed

text \<open>
  C8. \<^verbatim>\<open>write_to_file\<close> is \<open>False\<close> exactly when the file name is \<open>None\<close> and
  \<open>True\<close> otherwise; \<^verbatim>\<open>write(t)\<close> on a quantity without a file name raises before
  anything is opened or written, so the file system is left as it was; a quantity
  constructed with file name \<open>None\<close> does not export.
\<close>

theorem no_filename_no_file_access:
  "write_to_file q = (filename q \<noteq> None)
   \<and> (filename q = None \<longrightarrow> SurfaceQuantity_write t q fs = (Inl TypeError, fs))
   \<and> (\<forall>fld sub q'. SurfaceQuantity_init fld sub PyNone = Inr q' \<longrightarrow> \<not> write_to_file q')"
proof (intro conjI allI impI)
  show "write_to_file q = (filename q \<noteq> None)"
    by (simp add: write_to_file_def)
next
  assume "filename q = None"
  then show "SurfaceQuantity_write t q fs = (Inl TypeError, fs)"
    by (simp add: SurfaceQuantity_write_def)
next
  fix fld sub q'
  assume "SurfaceQuantity_init fld sub PyNone = Inr q'"
  then have "filename q' = None"
    by (auto simp: SurfaceQuantity_init_def filename_setter_None split: sum.splits)
  then show "\<not> write_to_file q'"
    by (simp add: write_to_file_def)
qed

theorem no_filename_no_file_access_witness:
  "\<not> write_to_file example_quantity
   \<and> write_to_file example_exporting_quantity
   \<and> SurfaceQuantity_write (PyFloat 1) example_quantity example_filesystem
       = (Inl TypeError, example_filesystem)"
proof -
  have n: "filename example_quantity = None"
    by (simp add: example_quantity_def)
  have s: "filename example_exporting_quantity \<noteq> None"
    by (simp add: example_exporting_quantity_def)
  from no_filename_no_file_access [of example_quantity "PyFloat 1" example_filesystem]
    no_filename_no_file_access [of example_exporting_quantity "PyFloat 1" example_filesystem] n s
  show ?thesis
    by simp
qed

section \<open>Properties of the volume quantities\<close>

lemma assemble_cong:
  "\<forall>(n, w) \<in> set m. e n = e' n \<Longrightarrow> assemble (Form e m) = assemble (Form e' m)"
  by (induction m) auto

lemma assemble_scale: "assemble (Form (\<lambda>n. c * g n) m) = c * assemble (Form g m)"
  by (induction m) (auto simp: algebra_simps)

lemma assemble_one: "assemble (Form (\<lambda>n. 1) m) = sum_list (map snd m)"
  by (induction m) auto

lemma assemble_constant_field:
  assumes "\<forall>(n, w) \<in> set m. u n = c"
  shows "assemble (Form (\<lambda>n. u n * g n) m) = c * assemble (Form g m)"
proof -
  have "assemble (Form (\<lambda>n. u n * g n) m) = assemble (Form (\<lambda>n. c * g n) m)"
    using assms by (intro assemble_cong) auto
  then show ?thesis
    by (simp only: assemble_scale)
qed

text \<open>
  C7. \<^verbatim>\<open>TotalVolume.compute()\<close> returns the unweighted integral of the field over the
  volume subdomain: the sum over the subdomain's nodes of weight times field value, with
  no further factor. On a field that is 1 all over the subdomain it returns the measure
  of the subdomain, the sum of the weights.
\<close>

theorem TotalVolume_compute_integral:
  "TotalVolume_compute q
     = sum_list (map (\<lambda>(n, w). w * function_values (function_attr q) n) (dx q (volume q)))
   \<and> ((\<forall>(n, w) \<in> set (dx q (volume q)). function_values (function_attr q) n = 1)
        \<longrightarrow> TotalVolume_compute q = sum_list (map snd (dx q (volume q))))"
proof (intro conjI impI)
  show "TotalVolume_compute q
     = sum_list (map (\<lambda>(n, w). w * function_values (function_attr q) n) (dx q (volume q)))"
    by (simp add: TotalVolume_compute_def)
next
  assume "\<forall>(n, w) \<in> set (dx q (volume q)). function_values (function_attr q) n = 1"
  then have "assemble (Form (function_values (function_attr q)) (dx q (volume q)))
             = assemble (Form (\<lambda>n. 1) (dx q (volume q)))"
    by (intro assemble_cong) auto
  then show "TotalVolume_compute q = sum_list (map snd (dx q (volume q)))"
    by (simp only: TotalVolume_compute_def assemble_one)
qed

theorem TotalVolume_compute_integral_witness:
  "TotalVolume_compute (example_base 1) = 1"
proof -
  have "\<forall>(n, w) \<in> set (dx (example_base 1) (volume (example_base 1))).
          function_values (function_attr (example_base 1)) n = 1"
    by (simp add: example_base_def)
  with TotalVolume_compute_integral [of "example_base 1"]
  have "TotalVolume_compute (example_base 1)
        = sum_list (map snd (dx (example_base 1) (volume (example_base 1))))"
    by blast
  then show ?thesis
    by (simp add: example_base_def)
qed

lemma spherical_compute_value:
  assumes rr: "rr = (case average_volume_spherical.r q of
                       None \<Rightarrow> SpatialCoordinate (function_mesh (function_attr q)) 0
                     | Some x \<Rightarrow> x)"
  shows "fst (AverageVolumeSpherical_compute q)
         = (if assemble (Form (\<lambda>n. rr n ^ 2) (dx q (volume q)))
               * ((snd (polar_range q) - fst (polar_range q))
                  * (- cos (snd (average_volume_spherical.azimuth_range q))
                     + cos (fst (average_volume_spherical.azimuth_range q)))) = 0
            then NonFinite
            else Finite (assemble (Form (\<lambda>n. function_values (function_attr q) n * rr n ^ 2)
                                    (dx q (volume q)))
                         / assemble (Form (\<lambda>n. rr n ^ 2) (dx q (volume q)))))"
proof -
  let ?m = "dx q (volume q)"
  let ?I = "assemble (Form (\<lambda>n. rr n ^ 2) ?m)"
  let ?N = "assemble (Form (\<lambda>n. function_values (function_attr q) n * rr n ^ 2) ?m)"
  let ?k = "(snd (polar_range q) - fst (polar_range q))
            * (- cos (snd (average_volume_spherical.azimuth_range q))
               + cos (fst (average_volume_spherical.azimuth_range q)))"
  have raw: "fst (AverageVolumeSpherical_compute q)
        = (if ?I * ?k = 0 then NonFinite else Finite (?N * ?k / (?I * ?k)))"
    by (simp add: AverageVolumeSpherical_compute_def Let_def rr [symmetric] mult.assoc
        del: assemble.simps)
  show ?thesis
  proof (cases "?I * ?k = 0")
    case True
    then show ?thesis
      unfolding raw by (simp del: assemble.simps)
  next
    case False
    then have "?k \<noteq> 0"
      by simp
    then have "?N * ?k / (?I * ?k) = ?N / ?I"
      by simp
    with False show ?thesis
      unfolding raw by (simp del: assemble.simps)
  qed
qed

text \<open>
  C2, amended. On a subdomain of nonzero measure \<^verbatim>\<open>AverageVolume.compute()\<close> returns
  the integral of the field over the subdomain's measure divided by the integral of 1
  over the same measure, so for a field that is the constant \<open>c\<close> over the subdomain it
  returns \<open>c\<close>, whatever the nodes and weights of the subdomain are; on a subdomain of
  measure zero it raises \<open>ZeroDivisionError\<close>. The spherical variant returns the integral
  of the field times \<open>r\<^sup>2\<close> divided by the integral of \<open>r\<^sup>2\<close>, hence \<open>c\<close> for a field
  that is \<open>c\<close> over the subdomain, when its weighted volume (the integral of \<open>r\<^sup>2\<close> times
  the polar span times the difference of the cosines of the azimuth bounds) is not
  zero; when that volume is zero its result is not a finite number.
\<close>

theorem AverageVolume_compute_constant:
  assumes rr: "rr = (case average_volume_spherical.r qs of
                       None \<Rightarrow> SpatialCoordinate (function_mesh (function_attr qs)) 0
                     | Some x \<Rightarrow> x)"
  shows "(sum_list (map snd (dx q (volume q))) \<noteq> 0 \<longrightarrow>
            AverageVolume_compute q
              = Inr (sum_list (map (\<lambda>(n, w). w * function_values (function_attr q) n)
                                (dx q (volume q)))
                     / sum_list (map snd (dx q (volume q))))
          \<and> ((\<forall>(n, w) \<in> set (dx q (volume q)). function_values (function_attr q) n = c)
               \<longrightarrow> AverageVolume_compute q = Inr c))
     \<and> (sum_list (map snd (dx q (volume q))) = 0 \<longrightarrow>
            AverageVolume_compute q = Inl ZeroDivisionError)
     \<and> fst (AverageVolumeSpherical_compute qs)
         = (if sum_list (map (\<lambda>(n, w). w * rr n ^ 2) (dx qs (volume qs)))
               * ((snd (polar_range qs) - fst (polar_range qs))
                  * (- cos (snd (average_volume_spherical.azimuth_range qs))
                     + cos (fst (average_volume_spherical.azimuth_range qs)))) = 0
            then NonFinite
            else Finite (sum_list (map (\<lambda>(n, w). w * (function_values (function_attr qs) n * rr n ^ 2))
                                    (dx qs (volume qs)))
                         / sum_list (map (\<lambda>(n, w). w * rr n ^ 2) (dx qs (volume qs)))))
     \<and> (sum_list (map (\<lambda>(n, w). w * rr n ^ 2) (dx qs (volume qs)))
           * ((snd (polar_range qs) - fst (polar_range qs))
              * (- cos (snd (average_volume_spherical.azimuth_range qs))
                 + cos (fst (average_volume_spherical.azimuth_range qs)))) \<noteq> 0
         \<and> (\<forall>(n, w) \<in> set (dx qs (volume qs)). function_values (function_attr qs) n = c)
         \<longrightarrow> fst (AverageVolumeSpherical_compute qs) = Finite c)"
proof (intro conjI impI)
  let ?m = "dx q (volume q)"
  have den: "assemble (Form (\<lambda>n. 1) ?m) = sum_list (map snd ?m)"
    by (rule assemble_one)
  have num: "assemble (Form (function_values (function_attr q)) ?m)
             = sum_list (map (\<lambda>(n, w). w * function_values (function_attr q) n) ?m)"
    by simp
  {
    assume nz: "sum_list (map snd ?m) \<noteq> 0"
    show first: "AverageVolume_compute q
           = Inr (sum_list (map (\<lambda>(n, w). w * function_values (function_attr q) n) ?m)
                  / sum_list (map snd ?m))"
      unfolding AverageVolume_compute_def Let_def
      using nz by (simp only: den num) simp
    assume "\<forall>(n, w) \<in> set ?m. function_values (function_attr q) n = c"
    then have "assemble (Form (\<lambda>n. function_values (function_attr q) n * 1) ?m)
               = c * assemble (Form (\<lambda>n. 1) ?m)"
      by (rule assemble_constant_field)
    then have "sum_list (map (\<lambda>(n, w). w * function_values (function_attr q) n) ?m)
               = c * sum_list (map snd ?m)"
      by (simp only: den) simp
    then show "AverageVolume_compute q = Inr c"
      using first nz by simp
  }
  {
    assume "sum_list (map snd ?m) = 0"
    then show "AverageVolume_compute q = Inl ZeroDivisionError"
      unfolding AverageVolume_compute_def Let_def
      by (simp only: den num) simp
  }
next
  let ?ms = "dx qs (volume qs)"
  have I: "assemble (Form (\<lambda>n. rr n ^ 2) ?ms) = sum_list (map (\<lambda>(n, w). w * rr n ^ 2) ?ms)"
    by simp
  have N: "assemble (Form (\<lambda>n. function_values (function_attr qs) n * rr n ^ 2) ?ms)
           = sum_list (map (\<lambda>(n, w). w * (function_values (function_attr qs) n * rr n ^ 2)) ?ms)"
    by simp
  show formula: "fst (AverageVolumeSpherical_compute qs)
         = (if sum_list (map (\<lambda>(n, w). w * rr n ^ 2) ?ms)
               * ((snd (polar_range qs) - fst (polar_range qs))
                  * (- cos (snd (average_volume_spherical.azimuth_range qs))
                     + cos (fst (average_volume_spherical.azimuth_range qs)))) = 0
            then NonFinite
            else Finite (sum_list (map (\<lambda>(n, w). w * (function_values (function_attr qs) n * rr n ^ 2)) ?ms)
                         / sum_list (map (\<lambda>(n, w). w * rr n ^ 2) ?ms)))"
    using spherical_compute_value [OF rr] by (simp only: I N)
  assume h: "sum_list (map (\<lambda>(n, w). w * rr n ^ 2) ?ms)
           * ((snd (polar_range qs) - fst (polar_range qs))
              * (- cos (snd (average_volume_spherical.azimuth_range qs))
                 + cos (fst (average_volume_spherical.azimuth_range qs)))) \<noteq> 0
         \<and> (\<forall>(n, w) \<in> set ?ms. function_values (function_attr qs) n = c)"
  then have "assemble (Form (\<lambda>n. function_values (function_attr qs) n * rr n ^ 2) ?ms)
             = c * assemble (Form (\<lambda>n. rr n ^ 2) ?ms)"
    by (intro assemble_constant_field) blast
  then have "sum_list (map (\<lambda>(n, w). w * (function_values (function_attr qs) n * rr n ^ 2)) ?ms)
             = c * sum_list (map (\<lambda>(n, w). w * rr n ^ 2) ?ms)"
    by (simp only: I N)
  moreover from h have "sum_list (map (\<lambda>(n, w). w * rr n ^ 2) ?ms) \<noteq> 0"
    by auto
  ultimately show "fst (AverageVolumeSpherical_compute qs) = Finite c"
    using h by (simp only: formula) simp
qed

theorem AverageVolume_compute_constant_witness:
  "AverageVolume_compute (example_base 3) = Inr 3
   \<and> AverageVolume_compute example_varying_base = Inr 3
   \<and> fst (AverageVolumeSpherical_compute example_spherical) = Finite 3
   \<and> fst (AverageVolumeSpherical_compute example_varying_spherical) = Finite (21 / 5)
   \<and> fst (AverageVolumeSpherical_compute example_degenerate_spherical) = NonFinite"
proof -
  let ?x = "SpatialCoordinate example_mesh 0"
  have r1: "?x = (case average_volume_spherical.r example_spherical of
                    None \<Rightarrow> SpatialCoordinate (function_mesh (function_attr example_spherical)) 0
                  | Some x \<Rightarrow> x)"
    by (simp add: example_spherical_def)
  have r2: "?x = (case average_volume_spherical.r example_varying_spherical of
                    None \<Rightarrow> SpatialCoordinate
                              (function_mesh (function_attr example_varying_spherical)) 0
                  | Some x \<Rightarrow> x)"
    by (simp add: example_varying_spherical_def example_spherical_def
        example_varying_function_def)
  have r3: "?x = (case average_volume_spherical.r example_degenerate_spherical of
                    None \<Rightarrow> SpatialCoordinate
                              (function_mesh (function_attr example_degenerate_spherical)) 0
                  | Some x \<Rightarrow> x)"
    by (simp add: example_degenerate_spherical_def)
  note A = AverageVolume_compute_constant
      [where rr = ?x and qs = example_spherical and q = "example_base 3" and c = 3, OF r1]
  note B = AverageVolume_compute_constant
      [where rr = ?x and qs = example_varying_spherical and q = example_varying_base and c = 3,
       OF r2]
  note C = AverageVolume_compute_constant
      [where rr = ?x and qs = example_degenerate_spherical and q = example_varying_base
         and c = 3, OF r3]
  have m: "sum_list (map snd (dx (example_base 3) (volume (example_base 3)))) \<noteq> 0"
    by (simp add: example_base_def)
  have c: "\<forall>(n, w) \<in> set (dx (example_base 3) (volume (example_base 3))).
             function_values (function_attr (example_base 3)) n = 3"
    by (simp add: example_base_def)
  have a1: "AverageVolume_compute (example_base 3) = Inr 3"
    by (rule A [THEN conjunct1, THEN mp, OF m, THEN conjunct2, THEN mp, OF c])
  have m2: "sum_list (map snd (dx example_varying_base (volume example_varying_base))) \<noteq> 0"
    by (simp add: example_varying_base_def example_base_def)
  have "AverageVolume_compute example_varying_base
          = Inr (sum_list (map (\<lambda>(n, w). w * function_values (function_attr example_varying_base) n)
                                (dx example_varying_base (volume example_varying_base)))
                     / sum_list (map snd (dx example_varying_base (volume example_varying_base))))"
    by (rule B [THEN conjunct1, THEN mp, OF m2, THEN conjunct1])
  then have b1: "AverageVolume_compute example_varying_base = Inr 3"
    by (simp add: example_varying_base_def example_base_def example_varying_function_def)
  have h: "sum_list (map (\<lambda>(n, w). w * ?x n ^ 2) (dx example_spherical (volume example_spherical)))
           * ((snd (polar_range example_spherical) - fst (polar_range example_spherical))
              * (- cos (snd (average_volume_spherical.azimuth_range example_spherical))
                 + cos (fst (average_volume_spherical.azimuth_range example_spherical)))) \<noteq> 0
         \<and> (\<forall>(n, w) \<in> set (dx example_spherical (volume example_spherical)).
               function_values (function_attr example_spherical) n = 3)"
    by (simp add: example_spherical_def SpatialCoordinate_def example_mesh_def)
  have a2: "fst (AverageVolumeSpherical_compute example_spherical) = Finite 3"
    by (rule A [THEN conjunct2, THEN conjunct2, THEN conjunct2, THEN mp, OF h])
  have b2: "fst (AverageVolumeSpherical_compute example_varying_spherical) = Finite (21 / 5)"
    unfolding B [THEN conjunct2, THEN conjunct2, THEN conjunct1]
    by (simp add: example_varying_spherical_def example_spherical_def
        example_varying_function_def SpatialCoordinate_def example_mesh_def)
  have c2: "fst (AverageVolumeSpherical_compute example_degenerate_spherical) = NonFinite"
    unfolding C [THEN conjunct2, THEN conjunct2, THEN conjunct1]
    by (simp add: example_degenerate_spherical_def)
  from a1 b1 a2 b2 c2 show ?thesis
    by (intro conjI)
qed

text \<open>
  A subdomain of nonzero measure and a constant field do not make the spherical variant
  return the constant: the polar range \<open>(1, 1)\<close> passes its setter, the weighted volume
  is then zero, and the result is not a finite number.
\<close>

theorem spherical_average_of_constant_not_finite:
  "AverageVolumeSpherical_init (example_base 3) (0, pi) (1, 1) = Inr example_degenerate_spherical
   \<and> sum_list (map snd (dx example_degenerate_spherical (volume example_degenerate_spherical))) = 1
   \<and> function_values (function_attr example_degenerate_spherical) = (\<lambda>n. 3)
   \<and> fst (AverageVolumeSpherical_compute example_degenerate_spherical) = NonFinite
   \<and> fst (AverageVolumeSpherical_compute example_degenerate_spherical) \<noteq> Finite 3"
proof (intro conjI)
  have "1 \<le> pi"
    using pi_ge_two by simp
  then show "AverageVolumeSpherical_init (example_base 3) (0, pi) (1, 1)
             = Inr example_degenerate_spherical"
    by (simp add: AverageVolumeSpherical_init_def spherical_azimuth_range_setter_def
        polar_range_setter_def example_base_def example_degenerate_spherical_def)
  show "sum_list (map snd (dx example_degenerate_spherical
          (volume example_degenerate_spherical))) = 1"
    by (simp add: example_degenerate_spherical_def)
  show "function_values (function_attr example_degenerate_spherical) = (\<lambda>n. 3)"
    by (simp add: example_degenerate_spherical_def)
  show v: "fst (AverageVolumeSpherical_compute example_degenerate_spherical) = NonFinite"
    by (simp add: AverageVolumeSpherical_compute_def Let_def example_degenerate_spherical_def)
  show "fst (AverageVolumeSpherical_compute example_degenerate_spherical) \<noteq> Finite 3"
    by (simp add: v)
qed

lemma cylindrical_compute_constant_field:
  assumes rr: "rr = (case average_volume_cylindrical.r q of
                       None \<Rightarrow> SpatialCoordinate (function_mesh (function_attr q)) 0
                     | Some x \<Rightarrow> x)"
    and const: "\<forall>(n, w) \<in> set (dx q (volume q)). function_values (function_attr q) n = c"
    and nz: "assemble (Form (\<lambda>n. rr n * z q n) (dx q (volume q))) \<noteq> 0"
    and span: "snd (average_volume_cylindrical.azimuth_range q)
               \<noteq> fst (average_volume_cylindrical.azimuth_range q)"
  shows "fst (AverageVolumeCylindrical_compute q)
         = Inr (c * (snd (average_volume_cylindrical.azimuth_range q)
                     - fst (average_volume_cylindrical.azimuth_range q)))"
proof -
  let ?m = "dx q (volume q)"
  let ?I = "assemble (Form (\<lambda>n. rr n * z q n) ?m)"
  let ?k = "snd (average_volume_cylindrical.azimuth_range q)
            - fst (average_volume_cylindrical.azimuth_range q)"
  have "assemble (Form (\<lambda>n. function_values (function_attr q) n * (rr n * z q n)) ?m) = c * ?I"
    using const by (rule assemble_constant_field)
  then have num: "assemble (Form (\<lambda>n. function_values (function_attr q) n * rr n * z q n) ?m)
                  = c * ?I"
    by (simp only: mult.assoc)
  have k: "?k \<noteq> 0"
    using span by simp
  have "fst (AverageVolumeCylindrical_compute q)
        = (if ?I * ?k = 0 then Inl ZeroDivisionError
           else Inr (assemble (Form (\<lambda>n. function_values (function_attr q) n * rr n * z q n) ?m)
                     * ?k / (?I * ?k) * ?k))"
    by (simp add: AverageVolumeCylindrical_compute_def Let_def rr [symmetric]
        del: assemble.simps)
  then show ?thesis
    using nz k by (simp only: num) simp
qed

text \<open>
  C1. The claim is that \<^verbatim>\<open>AverageVolumeCylindrical.compute()\<close> returns the value of
  a constant field for every valid azimuth range. The method multiplies the quotient of
  the two integrals by the azimuth span once more before returning it: constructed with
  the default range \<open>(0, 2\<pi>)\<close> on a field that is 3 everywhere, it returns \<open>6\<pi>\<close>.
\<close>

theorem cylindrical_average_scaled_by_span:
  "AverageVolumeCylindrical_init (example_base 3) (\<lambda>n. 1) (0, 2 * pi) = Inr example_cylindrical
   \<and> function_values (function_attr example_cylindrical) = (\<lambda>n. 3)
   \<and> fst (AverageVolumeCylindrical_compute example_cylindrical) = Inr (6 * pi)
   \<and> fst (AverageVolumeCylindrical_compute example_cylindrical) \<noteq> Inr 3"
proof (intro conjI)
  show "AverageVolumeCylindrical_init (example_base 3) (\<lambda>n. 1) (0, 2 * pi) = Inr example_cylindrical"
    by (simp add: AverageVolumeCylindrical_init_def cylindrical_azimuth_range_setter_def
        example_base_def example_cylindrical_def)
  show "function_values (function_attr example_cylindrical) = (\<lambda>n. 3)"
    by (simp add: example_cylindrical_def)
  show v: "fst (AverageVolumeCylindrical_compute example_cylindrical) = Inr (6 * pi)"
    by (simp add: AverageVolumeCylindrical_compute_def Let_def example_cylindrical_def
        SpatialCoordinate_def example_mesh_def)
  have "6 * pi \<noteq> 3"
    using pi_ge_two by simp
  then show "fst (AverageVolumeCylindrical_compute example_cylindrical) \<noteq> Inr 3"
    by (simp add: v)
qed


lemma cylindrical_compute_instance:
  "snd (AverageVolumeCylindrical_compute q)
     = q\<lparr>average_volume_cylindrical.r :=
           Some (case average_volume_cylindrical.r q of
                   None \<Rightarrow> SpatialCoordinate (function_mesh (function_attr q)) 0
                 | Some x \<Rightarrow> x)\<rparr>"
  by (simp add: AverageVolumeCylindrical_compute_def Let_def del: assemble.simps)

lemma spherical_compute_instance:
  "snd (AverageVolumeSpherical_compute q)
     = q\<lparr>average_volume_spherical.r :=
           Some (case average_volume_spherical.r q of
                   None \<Rightarrow> SpatialCoordinate (function_mesh (function_attr q)) 0
                 | Some x \<Rightarrow> x)\<rparr>"
  by (simp add: AverageVolumeSpherical_compute_def Let_def del: assemble.simps)

text \<open>
  C9. In both the cylindrical and the spherical variant the radial coordinate \<open>r\<close> is
  \<open>None\<close> after construction; a call of \<^verbatim>\<open>compute()\<close> that finds it \<open>None\<close>
  sets it to the first spatial coordinate of the mesh of the solution function and
  changes no other attribute; a call that finds it set leaves the whole instance as it
  is, so after the first call every further call leaves the instance unchanged.
\<close>

theorem radial_coordinate_cached:
  "(AverageVolumeCylindrical_init base z0 a0 = Inr qc' \<longrightarrow> average_volume_cylindrical.r qc' = None)
   \<and> (AverageVolumeSpherical_init base a1 p1 = Inr qs' \<longrightarrow> average_volume_spherical.r qs' = None)
   \<and> (average_volume_cylindrical.r qc = None \<longrightarrow>
        snd (AverageVolumeCylindrical_compute qc)
          = qc\<lparr>average_volume_cylindrical.r :=
                 Some (SpatialCoordinate (function_mesh (function_attr qc)) 0)\<rparr>)
   \<and> (average_volume_cylindrical.r qc \<noteq> None \<longrightarrow> snd (AverageVolumeCylindrical_compute qc) = qc)
   \<and> snd (AverageVolumeCylindrical_compute (snd (AverageVolumeCylindrical_compute qc)))
       = snd (AverageVolumeCylindrical_compute qc)
   \<and> (average_volume_spherical.r qs = None \<longrightarrow>
        snd (AverageVolumeSpherical_compute qs)
          = qs\<lparr>average_volume_spherical.r :=
                 Some (SpatialCoordinate (function_mesh (function_attr qs)) 0)\<rparr>)
   \<and> (average_volume_spherical.r qs \<noteq> None \<longrightarrow> snd (AverageVolumeSpherical_compute qs) = qs)
   \<and> snd (AverageVolumeSpherical_compute (snd (AverageVolumeSpherical_compute qs)))
       = snd (AverageVolumeSpherical_compute qs)"
proof (intro conjI impI)
  assume "AverageVolumeCylindrical_init base z0 a0 = Inr qc'"
  then show "average_volume_cylindrical.r qc' = None"
    by (auto simp: AverageVolumeCylindrical_init_def split: sum.splits)
next
  assume "AverageVolumeSpherical_init base a1 p1 = Inr qs'"
  then show "average_volume_spherical.r qs' = None"
    by (auto simp: AverageVolumeSpherical_init_def split: sum.splits)
next
  assume "average_volume_cylindrical.r qc = None"
  then show "snd (AverageVolumeCylindrical_compute qc)
          = qc\<lparr>average_volume_cylindrical.r :=
                 Some (SpatialCoordinate (function_mesh (function_attr qc)) 0)\<rparr>"
    by (simp add: cylindrical_compute_instance)
next
  assume "average_volume_cylindrical.r qc \<noteq> None"
  then show "snd (AverageVolumeCylindrical_compute qc) = qc"
    by (auto simp: cylindrical_compute_instance)
next
  show "snd (AverageVolumeCylindrical_compute (snd (AverageVolumeCylindrical_compute qc)))
       = snd (AverageVolumeCylindrical_compute qc)"
    by (simp add: cylindrical_compute_instance)
next
  assume "average_volume_spherical.r qs = None"
  then show "snd (AverageVolumeSpherical_compute qs)
          = qs\<lparr>average_volume_spherical.r :=
                 Some (SpatialCoordinate (function_mesh (function_attr qs)) 0)\<rparr>"
    by (simp add: spherical_compute_instance)
next
  assume "average_volume_spherical.r qs \<noteq> None"
  then show "snd (AverageVolumeSpherical_compute qs) = qs"
    by (auto simp: spherical_compute_instance)
next
  show "snd (AverageVolumeSpherical_compute (snd (AverageVolumeSpherical_compute qs)))
       = snd (AverageVolumeSpherical_compute qs)"
    by (simp add: spherical_compute_instance)
qed

theorem radial_coordinate_cached_witness:
  "average_volume_cylindrical.r example_cylindrical = None
   \<and> snd (AverageVolumeCylindrical_compute example_cylindrical)
       = example_cylindrical
           \<lparr>average_volume_cylindrical.r := Some (SpatialCoordinate example_mesh 0)\<rparr>
   \<and> snd (AverageVolumeCylindrical_compute
            (example_cylindrical
               \<lparr>average_volume_cylindrical.r := Some (SpatialCoordinate example_mesh 0)\<rparr>))
       = example_cylindrical
           \<lparr>average_volume_cylindrical.r := Some (SpatialCoordinate example_mesh 0)\<rparr>
   \<and> average_volume_spherical.r example_spherical = None
   \<and> snd (AverageVolumeSpherical_compute example_spherical)
       = example_spherical
           \<lparr>average_volume_spherical.r := Some (SpatialCoordinate example_mesh 0)\<rparr>
   \<and> snd (AverageVolumeSpherical_compute
            (example_spherical
               \<lparr>average_volume_spherical.r := Some (SpatialCoordinate example_mesh 0)\<rparr>))
       = example_spherical
           \<lparr>average_volume_spherical.r := Some (SpatialCoordinate example_mesh 0)\<rparr>"
proof -
  have ic: "AverageVolumeCylindrical_init (example_base 3) (\<lambda>n. 1) (0, 2 * pi)
            = Inr example_cylindrical"
    by (simp add: AverageVolumeCylindrical_init_def cylindrical_azimuth_range_setter_def
        example_base_def example_cylindrical_def)
  have "AverageVolumeSpherical_init (example_base 3) (0, pi) (- pi, pi) = Inr example_spherical"
    by (simp add: AverageVolumeSpherical_init_def spherical_azimuth_range_setter_def
        polar_range_setter_def example_base_def example_spherical_def)
  with ic radial_coordinate_cached
      [of "example_base 3" "\<lambda>n. 1" "(0, 2 * pi)" example_cylindrical "(0, pi)" "(- pi, pi)"
          example_spherical example_cylindrical example_spherical]
  have n: "average_volume_cylindrical.r example_cylindrical = None"
         "average_volume_spherical.r example_spherical = None"
    by blast+
  have mc: "function_mesh (function_attr example_cylindrical) = example_mesh"
    by (simp add: example_cylindrical_def)
  have ms: "function_mesh (function_attr example_spherical) = example_mesh"
    by (simp add: example_spherical_def)
  from n radial_coordinate_cached
      [of _ _ _ _ _ _ _ example_cylindrical example_spherical]
  have first: "snd (AverageVolumeCylindrical_compute example_cylindrical)
       = example_cylindrical
           \<lparr>average_volume_cylindrical.r := Some (SpatialCoordinate example_mesh 0)\<rparr>"
     "snd (AverageVolumeSpherical_compute example_spherical)
       = example_spherical
           \<lparr>average_volume_spherical.r := Some (SpatialCoordinate example_mesh 0)\<rparr>"
    unfolding mc ms by blast+
  from radial_coordinate_cached
      [of _ _ _ _ _ _ _ example_cylindrical example_spherical]
  have "snd (AverageVolumeCylindrical_compute (snd (AverageVolumeCylindrical_compute example_cylindrical)))
       = snd (AverageVolumeCylindrical_compute example_cylindrical)"
    "snd (AverageVolumeSpherical_compute (snd (AverageVolumeSpherical_compute example_spherical)))
       = snd (AverageVolumeSpherical_compute example_spherical)"
    by blast+
  with first n show ?thesis
    by simp
qed

lemma assign_cylindrical_azimuth_range_eq:
  "assign_cylindrical_azimuth_range (a, b) q
     = (if a < 0 \<or> 2 * pi < b then Inl ValueError
        else Inr (q\<lparr>average_volume_cylindrical.azimuth_range := (a, b)\<rparr>))"
  by (simp add: assign_cylindrical_azimuth_range_def cylindrical_azimuth_range_setter_def)

lemma assign_spherical_azimuth_range_eq:
  "assign_spherical_azimuth_range (a, b) q
     = (if a < 0 \<or> pi < b then Inl ValueError
        else Inr (q\<lparr>average_volume_spherical.azimuth_range := (a, b)\<rparr>))"
  by (simp add: assign_spherical_azimuth_range_def spherical_azimuth_range_setter_def)

lemma assign_polar_range_eq:
  "assign_polar_range (a, b) q
     = (if a < - pi \<or> pi < b then Inl ValueError else Inr (q\<lparr>polar_range := (a, b)\<rparr>))"
  by (simp add: assign_polar_range_def polar_range_setter_def)

text \<open>
  C3, amended. Assigning an angular range \<open>(a, b)\<close> raises \<open>ValueError\<close> exactly when
  \<open>a\<close> is below the lower bound or \<open>b\<close> is above the upper bound of the bracket:
  \<open>[0, 2\<pi>]\<close> for the cylindrical azimuth range, \<open>[0, \<pi>]\<close> for the spherical azimuth
  range and \<open>[-\<pi>, \<pi>]\<close> for the polar range. For an ordered range, \<open>a \<le> b\<close>, that is
  exactly when an endpoint lies outside the bracket. On the cylindrical variant
  \<open>(-0.1, \<pi>)\<close> raises, also from the constructor, and \<open>(0, 2\<pi>)\<close> succeeds. An
  accepted value is stored unchanged.
\<close>

theorem angular_range_assignment:
  "assign_cylindrical_azimuth_range (a, b) qc
     = (if a < 0 \<or> 2 * pi < b then Inl ValueError
        else Inr (qc\<lparr>average_volume_cylindrical.azimuth_range := (a, b)\<rparr>))
   \<and> assign_spherical_azimuth_range (a, b) qs
     = (if a < 0 \<or> pi < b then Inl ValueError
        else Inr (qs\<lparr>average_volume_spherical.azimuth_range := (a, b)\<rparr>))
   \<and> assign_polar_range (a, b) qs
     = (if a < - pi \<or> pi < b then Inl ValueError else Inr (qs\<lparr>polar_range := (a, b)\<rparr>))
   \<and> (a \<le> b \<longrightarrow>
        (assign_cylindrical_azimuth_range (a, b) qc = Inl ValueError
           \<longleftrightarrow> \<not> (a \<in> {0 .. 2 * pi} \<and> b \<in> {0 .. 2 * pi}))
      \<and> (assign_spherical_azimuth_range (a, b) qs = Inl ValueError
           \<longleftrightarrow> \<not> (a \<in> {0 .. pi} \<and> b \<in> {0 .. pi}))
      \<and> (assign_polar_range (a, b) qs = Inl ValueError
           \<longleftrightarrow> \<not> (a \<in> {- pi .. pi} \<and> b \<in> {- pi .. pi})))
   \<and> assign_cylindrical_azimuth_range (- 1 / 10, pi) qc = Inl ValueError
   \<and> assign_cylindrical_azimuth_range (0, 2 * pi) qc
       = Inr (qc\<lparr>average_volume_cylindrical.azimuth_range := (0, 2 * pi)\<rparr>)
   \<and> AverageVolumeCylindrical_init base z0 (- 1 / 10, pi) = Inl ValueError"
proof (intro conjI impI)
  assume "a \<le> b"
  then show "assign_cylindrical_azimuth_range (a, b) qc = Inl ValueError
           \<longleftrightarrow> \<not> (a \<in> {0 .. 2 * pi} \<and> b \<in> {0 .. 2 * pi})"
    by (auto simp: assign_cylindrical_azimuth_range_eq)
  from \<open>a \<le> b\<close> show "assign_spherical_azimuth_range (a, b) qs = Inl ValueError
           \<longleftrightarrow> \<not> (a \<in> {0 .. pi} \<and> b \<in> {0 .. pi})"
    by (auto simp: assign_spherical_azimuth_range_eq)
  from \<open>a \<le> b\<close> show "assign_polar_range (a, b) qs = Inl ValueError
           \<longleftrightarrow> \<not> (a \<in> {- pi .. pi} \<and> b \<in> {- pi .. pi})"
    by (auto simp: assign_polar_range_eq)
next
  show "AverageVolumeCylindrical_init base z0 (- 1 / 10, pi) = Inl ValueError"
    by (simp add: AverageVolumeCylindrical_init_def cylindrical_azimuth_range_setter_def)
qed (simp_all add: assign_cylindrical_azimuth_range_eq assign_spherical_azimuth_range_eq
      assign_polar_range_eq)

theorem angular_range_assignment_witness:
  "assign_cylindrical_azimuth_range (1, 2) example_cylindrical
     = Inr (example_cylindrical\<lparr>average_volume_cylindrical.azimuth_range := (1, 2)\<rparr>)
   \<and> assign_cylindrical_azimuth_range (- 1, 2) example_cylindrical = Inl ValueError
   \<and> assign_spherical_azimuth_range (1, 2) example_spherical
     = Inr (example_spherical\<lparr>average_volume_spherical.azimuth_range := (1, 2)\<rparr>)
   \<and> assign_polar_range (1, 2) example_spherical
     = Inr (example_spherical\<lparr>polar_range := (1, 2)\<rparr>)
   \<and> assign_polar_range (1, 4) example_spherical = Inl ValueError"
proof -
  have le: "(1::real) \<le> 2" "(- 1::real) \<le> 2" "(1::real) \<le> 4"
    by simp_all
  have p: "2 \<le> pi" "pi < 4"
    by (rule pi_ge_two, rule pi_less_4)
  from p have in12: "(1::real) \<in> {0 .. 2 * pi} \<and> (2::real) \<in> {0 .. 2 * pi}"
      "(1::real) \<in> {0 .. pi} \<and> (2::real) \<in> {0 .. pi}"
      "(1::real) \<in> {- pi .. pi} \<and> (2::real) \<in> {- pi .. pi}"
    by simp_all
  have out: "\<not> ((- 1::real) \<in> {0 .. 2 * pi} \<and> (2::real) \<in> {0 .. 2 * pi})"
    by simp
  from p have out4: "\<not> ((1::real) \<in> {- pi .. pi} \<and> (4::real) \<in> {- pi .. pi})"
    by simp
  have a: "assign_cylindrical_azimuth_range (- 1, 2) example_cylindrical = Inl ValueError"
    using angular_range_assignment [of "- 1" 2 example_cylindrical example_spherical] le out
    by blast
  have b: "assign_polar_range (1, 4) example_spherical = Inl ValueError"
    using angular_range_assignment [of 1 4 example_cylindrical example_spherical] le out4
    by blast
  note T = angular_range_assignment [of 1 2 example_cylindrical example_spherical]
  have c: "assign_cylindrical_azimuth_range (1, 2) example_cylindrical \<noteq> Inl ValueError"
     "assign_spherical_azimuth_range (1, 2) example_spherical \<noteq> Inl ValueError"
     "assign_polar_range (1, 2) example_spherical \<noteq> Inl ValueError"
    using T le in12 by blast+
  have "assign_cylindrical_azimuth_range (1, 2) example_cylindrical
     = Inr (example_cylindrical\<lparr>average_volume_cylindrical.azimuth_range := (1, 2)\<rparr>)"
    using T c(1) by (metis (full_types))
  moreover have "assign_spherical_azimuth_range (1, 2) example_spherical
     = Inr (example_spherical\<lparr>average_volume_spherical.azimuth_range := (1, 2)\<rparr>)"
    using T c(2) by (metis (full_types))
  moreover have "assign_polar_range (1, 2) example_spherical
     = Inr (example_spherical\<lparr>polar_range := (1, 2)\<rparr>)"
    using T c(3) by (metis (full_types))
  ultimately show ?thesis
    using a b by blast
qed

text \<open>
  Without the ordering the setters do not raise exactly when the range leaves the
  bracket: \<open>a\<close> is never compared with the upper bound and \<open>b\<close> never with the lower
  one, so a range that starts beyond the upper bound and ends inside the bracket is
  accepted by each of the three setters.
\<close>

theorem angular_range_accepted_with_endpoint_outside:
  "(8::real) \<notin> {0 .. 2 * pi}
   \<and> assign_cylindrical_azimuth_range (8, 1) example_cylindrical
       = Inr (example_cylindrical\<lparr>average_volume_cylindrical.azimuth_range := (8, 1)\<rparr>)
   \<and> (4::real) \<notin> {0 .. pi}
   \<and> assign_spherical_azimuth_range (4, 0) example_spherical
       = Inr (example_spherical\<lparr>average_volume_spherical.azimuth_range := (4, 0)\<rparr>)
   \<and> (4::real) \<notin> {- pi .. pi}
   \<and> assign_polar_range (4, 0) example_spherical
       = Inr (example_spherical\<lparr>polar_range := (4, 0)\<rparr>)"
proof -
  have "pi < 4" by (rule pi_less_4)
  moreover have "2 \<le> pi" by (rule pi_ge_two)
  ultimately show ?thesis
    by (simp add: assign_cylindrical_azimuth_range_eq assign_spherical_azimuth_range_eq
        assign_polar_range_eq)
qed

text \<open>
  C10. The angular-range setters do not look at the order of the endpoints: every pair
  \<open>(a, b)\<close> with \<open>a\<close> not below the lower bound and \<open>b\<close> not above the upper bound is
  accepted, also when \<open>a > b\<close>; the cylindrical variant accepts \<open>(2\<pi>, 0)\<close>, whose span
  \<open>b - a\<close> is negative. \<^verbatim>\<open>compute()\<close> then works with that negative span: on a
  constant field \<open>c\<close> the cylindrical variant returns \<open>c * (b - a)\<close>.
\<close>

theorem angular_range_order_unchecked:
  "(0 \<le> a \<and> b \<le> 2 * pi \<longrightarrow>
      assign_cylindrical_azimuth_range (a, b) qc
        = Inr (qc\<lparr>average_volume_cylindrical.azimuth_range := (a, b)\<rparr>))
   \<and> (0 \<le> a \<and> b \<le> pi \<longrightarrow>
      assign_spherical_azimuth_range (a, b) qs
        = Inr (qs\<lparr>average_volume_spherical.azimuth_range := (a, b)\<rparr>))
   \<and> (- pi \<le> a \<and> b \<le> pi \<longrightarrow>
      assign_polar_range (a, b) qs = Inr (qs\<lparr>polar_range := (a, b)\<rparr>))
   \<and> assign_cylindrical_azimuth_range (2 * pi, 0) qc
       = Inr (qc\<lparr>average_volume_cylindrical.azimuth_range := (2 * pi, 0)\<rparr>)
   \<and> snd (2 * pi, 0 :: real) - fst (2 * pi, 0 :: real) < 0
   \<and> (b < a
        \<and> rr = (case average_volume_cylindrical.r qc of
                  None \<Rightarrow> SpatialCoordinate (function_mesh (function_attr qc)) 0
                | Some x \<Rightarrow> x)
        \<and> (\<forall>(n, w) \<in> set (dx qc (volume qc)). function_values (function_attr qc) n = c)
        \<and> assemble (Form (\<lambda>n. rr n * z qc n) (dx qc (volume qc))) \<noteq> 0
      \<longrightarrow> fst (AverageVolumeCylindrical_compute
                 (qc\<lparr>average_volume_cylindrical.azimuth_range := (a, b)\<rparr>))
            = Inr (c * (b - a))
          \<and> b - a < 0)"
proof (intro conjI impI)
  assume h: "b < a
        \<and> rr = (case average_volume_cylindrical.r qc of
                  None \<Rightarrow> SpatialCoordinate (function_mesh (function_attr qc)) 0
                | Some x \<Rightarrow> x)
        \<and> (\<forall>(n, w) \<in> set (dx qc (volume qc)). function_values (function_attr qc) n = c)
        \<and> assemble (Form (\<lambda>n. rr n * z qc n) (dx qc (volume qc))) \<noteq> 0"
  then have lt: "b < a"
    and rr: "rr = (case average_volume_cylindrical.r qc of
                  None \<Rightarrow> SpatialCoordinate (function_mesh (function_attr qc)) 0
                | Some x \<Rightarrow> x)"
    and const: "\<forall>(n, w) \<in> set (dx qc (volume qc)). function_values (function_attr qc) n = c"
    and nz: "assemble (Form (\<lambda>n. rr n * z qc n) (dx qc (volume qc))) \<noteq> 0"
    by blast+
  from lt show "b - a < 0"
    by simp
  let ?q = "qc\<lparr>average_volume_cylindrical.azimuth_range := (a, b)\<rparr>"
  have rr': "rr = (case average_volume_cylindrical.r ?q of
                  None \<Rightarrow> SpatialCoordinate (function_mesh (function_attr ?q)) 0
                | Some x \<Rightarrow> x)"
    using rr by (simp split: option.split)
  have const': "\<forall>(n, w) \<in> set (dx ?q (volume ?q)). function_values (function_attr ?q) n = c"
    using const by simp
  have nz': "assemble (Form (\<lambda>n. rr n * z ?q n) (dx ?q (volume ?q))) \<noteq> 0"
    using nz by (simp del: assemble.simps)
  have span: "snd (average_volume_cylindrical.azimuth_range ?q)
              \<noteq> fst (average_volume_cylindrical.azimuth_range ?q)"
    using lt by simp
  from cylindrical_compute_constant_field [OF rr' const' nz' span]
  show "fst (AverageVolumeCylindrical_compute ?q) = Inr (c * (b - a))"
    by simp
qed (simp_all add: assign_cylindrical_azimuth_range_eq assign_spherical_azimuth_range_eq
      assign_polar_range_eq)

theorem angular_range_order_unchecked_witness:
  "assign_cylindrical_azimuth_range (2, 1) example_cylindrical
     = Inr (example_cylindrical\<lparr>average_volume_cylindrical.azimuth_range := (2, 1)\<rparr>)
   \<and> assign_spherical_azimuth_range (2, 1) example_spherical
     = Inr (example_spherical\<lparr>average_volume_spherical.azimuth_range := (2, 1)\<rparr>)
   \<and> assign_polar_range (2, 1) example_spherical
     = Inr (example_spherical\<lparr>polar_range := (2, 1)\<rparr>)
   \<and> fst (AverageVolumeCylindrical_compute
            (example_cylindrical\<lparr>average_volume_cylindrical.azimuth_range := (2, 1)\<rparr>))
       = Inr (- 3)"
proof -
  have p: "2 \<le> pi"
    by (rule pi_ge_two)
  then have b: "(0::real) \<le> 2 \<and> (1::real) \<le> 2 * pi" "(0::real) \<le> 2 \<and> (1::real) \<le> pi"
      "- pi \<le> 2 \<and> (1::real) \<le> pi"
    by simp_all
  have h: "(1::real) < 2
        \<and> SpatialCoordinate example_mesh 0
            = (case average_volume_cylindrical.r example_cylindrical of
                  None \<Rightarrow> SpatialCoordinate (function_mesh (function_attr example_cylindrical)) 0
                | Some x \<Rightarrow> x)
        \<and> (\<forall>(n, w) \<in> set (dx example_cylindrical (volume example_cylindrical)).
              function_values (function_attr example_cylindrical) n = 3)
        \<and> assemble (Form (\<lambda>n. SpatialCoordinate example_mesh 0 n * z example_cylindrical n)
              (dx example_cylindrical (volume example_cylindrical))) \<noteq> 0"
    by (simp add: example_cylindrical_def SpatialCoordinate_def example_mesh_def)
  note T = angular_range_order_unchecked
      [of 2 1 example_cylindrical example_spherical "SpatialCoordinate example_mesh 0" 3]
  from T h have "fst (AverageVolumeCylindrical_compute
            (example_cylindrical\<lparr>average_volume_cylindrical.azimuth_range := (2, 1)\<rparr>))
       = Inr (3 * (1 - 2))"
    by blast
  then have "fst (AverageVolumeCylindrical_compute
            (example_cylindrical\<lparr>average_volume_cylindrical.azimuth_range := (2, 1)\<rparr>))
       = Inr (- 3)"
    by simp
  with T b show ?thesis
    by blast
qed

end
